theory Spec2Isabelle
  imports Complex_Main "HOL-Library.AList"
begin

text \<open>
  The job lifecycle client of the visualization module: the React component
  \<open>AutomatedVisualizationModule\<close> (form validation and submission, the WebSocket
  handlers, the polling fallback, cancellation) and the export function of its
  \<open>ResultsViewer\<close>. Component state, sockets, timers and awaited requests are one
  record; each handler is a function on it, and an \<open>async\<close> function is split at its
  \<open>await\<close> into the part that issues the request and the part that runs when the
  request settles.
\<close>

section \<open>JavaScript values\<close>

text \<open>
  The component keeps values that come off the wire (decoded JSON) in its state without
  checking their shape, so the state holds JavaScript values. Numbers on this wire are
  integers (\<open>progress\<close>); a number is truthy unless it is zero.
\<close>

datatype jsval =
    JUndefined
  | JNull
  | JBool bool
  | JNum int
  | JStr string
  | JArr "jsval list"
  | JObj "(string \<times> jsval) list"

datatype error = SyntaxError | TypeError

fun truthy :: "jsval \<Rightarrow> bool" where
  "truthy JUndefined = False"
| "truthy JNull = False"
| "truthy (JBool b) = b"
| "truthy (JNum n) = (n \<noteq> 0)"
| "truthy (JStr s) = (s \<noteq> [])"
| "truthy (JArr xs) = True"
| "truthy (JObj kvs) = True"

text \<open>
  Reading a property of \<open>null\<close> or \<open>undefined\<close> throws a TypeError; on any other value
  a property that is absent reads as \<open>undefined\<close>. The source only reads the keys
  \<open>type\<close>, \<open>progress\<close>, \<open>message\<close>, \<open>status\<close> and \<open>job_id\<close>, none of which a
  primitive, an array or \<open>Object.prototype\<close> has.
\<close>

definition nullish :: "jsval \<Rightarrow> bool" where
  "nullish v = (v = JNull \<or> v = JUndefined)"

fun get :: "jsval \<Rightarrow> string \<Rightarrow> jsval" where
  "get (JObj kvs) k = (case map_of kvs k of None \<Rightarrow> JUndefined | Some v \<Rightarrow> v)"
| "get v k = JUndefined"

text \<open>\<open>a || b\<close>\<close>

definition js_or :: "jsval \<Rightarrow> jsval \<Rightarrow> jsval" where
  "js_or a b = (if truthy a then a else b)"

text \<open>
  The white space of \<open>String.prototype.trim\<close> and of the regular expression class
  \<open>\s\<close>, for the code units a \<open>char\<close> can hold: tab, line feed, vertical tab, form
  feed, carriage return, space and no-break space.
\<close>

definition is_space :: "char \<Rightarrow> bool" where
  "is_space c = (of_char c \<in> {9, 10, 11, 12, 13, 32, 160 :: nat})"

definition trim :: "string \<Rightarrow> string" where
  "trim s = rev (dropWhile is_space (rev (dropWhile is_space s)))"

section \<open>Component state\<close>

record params =
  regionName :: string
  startDate :: string
  endDate :: string
  analysisType :: string
  geometry :: jsval

record job_status =
  status :: jsval
  progress :: jsval
  message :: jsval
  jobId :: jsval

text \<open>
  A socket made by \<open>new WebSocket(wsUrl)\<close>: the job id its two handlers have closed
  over, and whether it is open. A timer made by \<open>setInterval\<close>: the job id its callback
  has closed over, and whether it is still set.
\<close>

record socket =
  sockJob :: jsval
  isOpen :: bool

record timer =
  timerJob :: jsval
  active :: bool

text \<open>Requests handed to axios, in the order they are issued.\<close>

datatype request =
    PostGenerate params
  | GetStatus jsval
  | GetPreview jsval
  | PostCancel jsval

text \<open>
  What runs when an awaited request settles: the rest of \<open>handleAnalysisSubmit\<close>, of
  the timer callback of \<open>pollJobStatus\<close> (with its timer and job id), of
  \<open>loadJobResults\<close> and of \<open>handleCancelJob\<close>.
\<close>

datatype cont =
    SubmitK
  | PollK nat jsval
  | PreviewK
  | CancelK

text \<open>
  How a request settles: fulfilled with \<open>response.data\<close>, or rejected, carrying the value
  of \<open>error.response?.data?.detail\<close> (\<open>undefined\<close> when there is none).
\<close>

datatype outcome = Fulfilled jsval | Rejected jsval

record client =
  analysisParams :: params
  jobStatus :: job_status
  results :: jsval
  errors :: "(string \<times> jsval) list"
  wsRef :: "nat option"
  sockets :: "socket list"
  timers :: "timer list"
  requests :: "request list"
  awaiting :: "cont list"
  console :: "string list"

definition idle :: job_status where
  "idle = \<lparr>status = JStr ''idle'', progress = JNum 0, message = JStr '''', jobId = JNull\<rparr>"

definition initial :: client where
  "initial =
     \<lparr>analysisParams =
        \<lparr>regionName = '''', startDate = '''', endDate = '''',
         analysisType = ''anomaly'', geometry = JNull\<rparr>,
      jobStatus = idle, results = JNull, errors = [], wsRef = None, sockets = [],
      timers = [], requests = [], awaiting = [], console = []\<rparr>"

section \<open>Validation and submission\<close>

text \<open>
  \<open>new Date(s)\<close> is the host's: \<open>Date\<close> below stands for it, giving the time value in
  milliseconds, or \<open>None\<close> for an invalid date (whose time value is NaN). A comparison
  with NaN is false, and arithmetic on NaN gives NaN. Time values are integers, and
  an integer number of milliseconds divided by 86400000 exceeds 366 in floating point
  exactly when it does in exact arithmetic.
\<close>

definition date_ge :: "int option \<Rightarrow> int option \<Rightarrow> bool" where
  "date_ge a b = (case (a, b) of (Some x, Some y) \<Rightarrow> x \<ge> y | _ \<Rightarrow> False)"

definition date_diff_days :: "int option \<Rightarrow> int option \<Rightarrow> real option" where
  "date_diff_days a b =
     (case (a, b) of
        (Some x, Some y) \<Rightarrow> Some (real_of_int (y - x) / (1000 * 60 * 60 * 24))
      | _ \<Rightarrow> None)"

definition num_gt :: "real option \<Rightarrow> real \<Rightarrow> bool" where
  "num_gt a b = (case a of Some x \<Rightarrow> x > b | None \<Rightarrow> False)"

definition validateForm :: "(string \<Rightarrow> int option) \<Rightarrow> params \<Rightarrow> (string \<times> jsval) list" where
  "validateForm Date p =
     (let es = [];
          es = (if trim (regionName p) = []
                then AList.update ''regionName'' (JStr ''Region name is required'') es
                else es);
          es = (if startDate p = []
                then AList.update ''startDate'' (JStr ''Start date is required'') es
                else es);
          es = (if endDate p = []
                then AList.update ''endDate'' (JStr ''End date is required'') es
                else es);
          es = (if startDate p \<noteq> [] \<and> endDate p \<noteq> [] then
                  (let start = Date (startDate p);
                       finish = Date (endDate p);
                       es = (if date_ge start finish
                             then AList.update ''endDate''
                                    (JStr ''End date must be after start date'') es
                             else es);
                       daysDiff = date_diff_days start finish
                   in if num_gt daysDiff 366
                      then AList.update ''endDate''
                             (JStr ''Date range cannot exceed 366 days'') es
                      else es)
                else es);
          es = (if \<not> truthy (geometry p)
                then AList.update ''geometry''
                       (JStr ''Please define an analysis area on the map'') es
                else es)
      in es)"

text \<open>
  \<open>handleAnalysisSubmit\<close> up to its \<open>await\<close>: with validation errors it stores them
  and returns; otherwise it clears the errors and posts the parameters.
\<close>

definition handleAnalysisSubmit :: "(string \<Rightarrow> int option) \<Rightarrow> client \<Rightarrow> client" where
  "handleAnalysisSubmit Date st =
     (let validationErrors = validateForm Date (analysisParams st)
      in if length validationErrors > 0 then st\<lparr>errors := validationErrors\<rparr>
         else st\<lparr>errors := [],
                 requests := requests st @ [PostGenerate (analysisParams st)],
                 awaiting := awaiting st @ [SubmitK]\<rparr>)"

section \<open>Push channel and fallback polling\<close>

definition loadJobResults :: "jsval \<Rightarrow> client \<Rightarrow> client" where
  "loadJobResults job st =
     st\<lparr>requests := requests st @ [GetPreview job], awaiting := awaiting st @ [PreviewK]\<rparr>"

definition loadJobResults_settled :: "outcome \<Rightarrow> client \<Rightarrow> client" where
  "loadJobResults_settled out st =
     (case out of
        Fulfilled d \<Rightarrow> st\<lparr>results := d\<rparr>
      | Rejected e \<Rightarrow> st\<lparr>console := console st @ [''Failed to load results:'']\<rparr>)"

text \<open>\<open>pollJobStatus\<close> sets the timer; the timer's callback is \<open>poll_tick\<close> up to its
  \<open>await\<close> and \<open>poll_settled\<close> after it.\<close>

definition pollJobStatus :: "jsval \<Rightarrow> client \<Rightarrow> client" where
  "pollJobStatus job st = st\<lparr>timers := timers st @ [\<lparr>timerJob = job, active = True\<rparr>]\<rparr>"

definition clearInterval :: "nat \<Rightarrow> client \<Rightarrow> client" where
  "clearInterval n st =
     (if n < length (timers st)
      then st\<lparr>timers := (timers st)[n := (timers st ! n)\<lparr>active := False\<rparr>]\<rparr>
      else st)"

definition poll_tick :: "nat \<Rightarrow> jsval \<Rightarrow> client \<Rightarrow> client" where
  "poll_tick n job st =
     st\<lparr>requests := requests st @ [GetStatus job], awaiting := awaiting st @ [PollK n job]\<rparr>"

definition poll_settled :: "nat \<Rightarrow> jsval \<Rightarrow> outcome \<Rightarrow> client \<Rightarrow> client" where
  "poll_settled n job out st =
     (case out of
        Fulfilled d \<Rightarrow>
          if nullish d then st\<lparr>console := console st @ [''Failed to poll job status:'']\<rparr>
          else
            (let st1 = st\<lparr>jobStatus :=
                          \<lparr>status = get d ''status'', progress = get d ''progress'',
                           message = get d ''message'', jobId = job\<rparr>\<rparr>
             in if get d ''status'' = JStr ''completed''
                then loadJobResults job (clearInterval n st1)
                else if get d ''status'' = JStr ''failed'' then clearInterval n st1
                else st1)
      | Rejected e \<Rightarrow> st\<lparr>console := console st @ [''Failed to poll job status:'']\<rparr>)"

text \<open>
  The \<open>onmessage\<close> handler of the socket opened for \<open>job\<close>. Its argument is what
  \<open>JSON.parse(event.data)\<close> gives: \<open>None\<close> when the payload is not JSON and the call
  throws. \<open>data.type\<close> throws when the payload decodes to \<open>null\<close>. Nothing in the
  handler catches either exception.
\<close>

definition onmessage :: "jsval \<Rightarrow> jsval option \<Rightarrow> client \<Rightarrow> error + client" where
  "onmessage job parsed st =
     (case parsed of
        None \<Rightarrow> Inl SyntaxError
      | Some data \<Rightarrow>
          if nullish data then Inl TypeError
          else if get data ''type'' = JStr ''progress_update'' then
            Inr (st\<lparr>jobStatus := (jobStatus st)
                   \<lparr>status := JStr ''running'', progress := get data ''progress'',
                    message := get data ''message''\<rparr>\<rparr>)
          else if get data ''type'' = JStr ''job_completed'' then
            Inr (loadJobResults job
                   (st\<lparr>jobStatus := (jobStatus st)
                      \<lparr>status := JStr ''completed'', progress := JNum 100,
                       message := JStr ''Analysis completed successfully''\<rparr>\<rparr>))
          else if get data ''type'' = JStr ''job_failed'' then
            Inr (st\<lparr>jobStatus := (jobStatus st)
                   \<lparr>status := JStr ''failed'',
                    message := js_or (get data ''message'') (JStr ''Analysis failed'')\<rparr>\<rparr>)
          else Inr st)"

definition onerror :: "jsval \<Rightarrow> client \<Rightarrow> client" where
  "onerror job st = pollJobStatus job st"

text \<open>
  \<open>startWebSocketConnection\<close> makes a socket, stores it in \<open>wsRef.current\<close> and
  installs the two handlers on it. A socket is identified by its position in \<open>sockets\<close>.
\<close>

definition startWebSocketConnection :: "jsval \<Rightarrow> client \<Rightarrow> client" where
  "startWebSocketConnection job st =
     st\<lparr>wsRef := Some (length (sockets st)),
        sockets := sockets st @ [\<lparr>sockJob = job, isOpen = True\<rparr>]\<rparr>"

definition close :: "nat \<Rightarrow> client \<Rightarrow> client" where
  "close n st =
     (if n < length (sockets st)
      then st\<lparr>sockets := (sockets st)[n := (sockets st ! n)\<lparr>isOpen := False\<rparr>]\<rparr>
      else st)"

text \<open>\<open>handleAnalysisSubmit\<close> after its \<open>await\<close>. Destructuring \<open>response.data\<close> throws
  when it is \<open>null\<close> or \<open>undefined\<close>, which the \<open>catch\<close> turns into a submit error.\<close>

definition handleAnalysisSubmit_settled :: "outcome \<Rightarrow> client \<Rightarrow> client" where
  "handleAnalysisSubmit_settled out st =
     (case out of
        Fulfilled d \<Rightarrow>
          if nullish d
          then st\<lparr>console := console st @ [''Failed to start analysis:''],
                  errors := [(''submit'', JStr ''Failed to start analysis'')]\<rparr>
          else startWebSocketConnection (get d ''job_id'')
                 (st\<lparr>jobStatus :=
                      \<lparr>status = JStr ''pending'', progress = JNum 0,
                       message = JStr ''Starting analysis...'', jobId = get d ''job_id''\<rparr>\<rparr>)
      | Rejected detail \<Rightarrow>
          st\<lparr>console := console st @ [''Failed to start analysis:''],
             errors := [(''submit'', js_or detail (JStr ''Failed to start analysis''))]\<rparr>)"

section \<open>Cancellation\<close>

definition handleCancelJob :: "client \<Rightarrow> client" where
  "handleCancelJob st =
     (if truthy (jobId (jobStatus st))
      then st\<lparr>requests := requests st @ [PostCancel (jobId (jobStatus st))],
              awaiting := awaiting st @ [CancelK]\<rparr>
      else st)"

definition handleCancelJob_settled :: "outcome \<Rightarrow> client \<Rightarrow> client" where
  "handleCancelJob_settled out st =
     (case out of
        Fulfilled d \<Rightarrow>
          (let st1 = st\<lparr>jobStatus := idle\<rparr>
           in case wsRef st1 of Some n \<Rightarrow> close n st1 | None \<Rightarrow> st1)
      | Rejected e \<Rightarrow> st\<lparr>console := console st @ [''Failed to cancel job:'']\<rparr>)"

section \<open>The event loop\<close>

text \<open>
  One event is one task of the host's event loop. While the status is \<open>running\<close> or
  \<open>pending\<close> the form disables its submit button, and only then is the cancel button
  rendered; the "Try Again" button is rendered only while it is \<open>failed\<close>. The host
  delivers messages and errors only for a socket that is not closed, and an error closes
  the socket; it runs a timer's callback only while the timer is set. An exception that
  leaves the message handler ends that task; the handler throws only before its first
  state update, so the state is then as it was.
\<close>

datatype event =
    ClickGenerate
  | ClickCancel
  | ClickTryAgain
  | Message nat "jsval option"
  | SocketError nat
  | Tick nat
  | Settle nat outcome

definition isRunning :: "client \<Rightarrow> bool" where
  "isRunning st =
     (status (jobStatus st) = JStr ''running'' \<or> status (jobStatus st) = JStr ''pending'')"

definition settle :: "cont \<Rightarrow> outcome \<Rightarrow> client \<Rightarrow> client" where
  "settle k out st =
     (case k of
        SubmitK \<Rightarrow> handleAnalysisSubmit_settled out st
      | PollK n job \<Rightarrow> poll_settled n job out st
      | PreviewK \<Rightarrow> loadJobResults_settled out st
      | CancelK \<Rightarrow> handleCancelJob_settled out st)"

definition step :: "(string \<Rightarrow> int option) \<Rightarrow> event \<Rightarrow> client \<Rightarrow> client" where
  "step Date ev st =
     (case ev of
        ClickGenerate \<Rightarrow> if isRunning st then st else handleAnalysisSubmit Date st
      | ClickCancel \<Rightarrow> if isRunning st then handleCancelJob st else st
      | ClickTryAgain \<Rightarrow>
          if status (jobStatus st) = JStr ''failed'' then st\<lparr>jobStatus := idle\<rparr> else st
      | Message n parsed \<Rightarrow>
          if n < length (sockets st) \<and> isOpen (sockets st ! n)
          then (case onmessage (sockJob (sockets st ! n)) parsed st of
                  Inl e \<Rightarrow> st
                | Inr st' \<Rightarrow> st')
          else st
      | SocketError n \<Rightarrow>
          if n < length (sockets st) \<and> isOpen (sockets st ! n)
          then onerror (sockJob (sockets st ! n)) (close n st)
          else st
      | Tick n \<Rightarrow>
          if n < length (timers st) \<and> active (timers st ! n)
          then poll_tick n (timerJob (timers st ! n)) st
          else st
      | Settle i out \<Rightarrow>
          if i < length (awaiting st)
          then settle (awaiting st ! i) out
                 (st\<lparr>awaiting := take i (awaiting st) @ drop (Suc i) (awaiting st)\<rparr>)
          else st)"

fun run :: "(string \<Rightarrow> int option) \<Rightarrow> event list \<Rightarrow> client \<Rightarrow> client" where
  "run Date [] st = st"
| "run Date (ev # evs) st = run Date evs (step Date ev st)"

section \<open>Export from the results viewer\<close>

text \<open>
  \<open>ResultsViewer\<close> receives \<open>results\<close> and \<open>analysisParams\<close> as properties and is
  rendered only while \<open>results\<close> is truthy. \<open>parseInt\<close> is the host's and is passed in.
  An export that is awaited keeps the format and the parameters it was started with.
\<close>

record export_body =
  job_id :: jsval
  format :: string
  resolution :: jsval

record viewer =
  results_prop :: jsval
  analysisParams_prop :: params
  isExporting :: bool
  exportRequests :: "export_body list"
  exportsAwaiting :: "(string \<times> params) list"
  saved :: "string list"
  alerts :: "string list"
  viewer_console :: "string list"

text \<open>\<open>s.replace(/\s+/g, '_')\<close>: every maximal run of white space becomes one underscore.\<close>

function replace_spaces :: "string \<Rightarrow> string" where
  "replace_spaces [] = []"
| "replace_spaces (c # cs) =
     (if is_space c then CHR ''_'' # replace_spaces (dropWhile is_space cs)
      else c # replace_spaces cs)"
  by pat_completeness auto
termination
  by (relation "measure length") (auto simp: length_dropWhile_le less_Suc_eq_le)

definition downloadMap :: "(string \<Rightarrow> jsval) \<Rightarrow> string \<Rightarrow> string \<Rightarrow> viewer \<Rightarrow> error + viewer" where
  "downloadMap parseInt fmt res v =
     (if nullish (results_prop v) then Inl TypeError
      else if \<not> truthy (get (results_prop v) ''job_id'') then Inr v
      else Inr (v\<lparr>isExporting := True,
                  exportRequests := exportRequests v @
                    [\<lparr>job_id = get (results_prop v) ''job_id'', format = fmt,
                      resolution = parseInt res\<rparr>],
                  exportsAwaiting := exportsAwaiting v @ [(fmt, analysisParams_prop v)]\<rparr>))"

definition downloadMap_settled :: "string \<times> params \<Rightarrow> outcome \<Rightarrow> viewer \<Rightarrow> viewer" where
  "downloadMap_settled k out v =
     (case out of
        Fulfilled blob \<Rightarrow>
          v\<lparr>saved := saved v @
               [replace_spaces (regionName (snd k)) @ ''_analysis_'' @ startDate (snd k)
                  @ ''.'' @ fst k],
            isExporting := False\<rparr>
      | Rejected e \<Rightarrow>
          v\<lparr>viewer_console := viewer_console v @ [''Export failed:''],
            alerts := alerts v @ [''Export failed. Please try again.''],
            isExporting := False\<rparr>)"

section \<open>Sample inputs\<close>

text \<open>
  The time values \<open>new Date(s).getTime()\<close> of three date-only strings (UTC midnight), a
  form filled in as in the end-to-end scenarios, and the wire messages used below.
\<close>

definition sample_dates :: "string \<Rightarrow> int option" where
  "sample_dates s =
     map_of [(''2025-11-01'', 1761955200000), (''2025-12-15'', 1765756800000),
             (''2027-01-01'', 1798761600000)] s"

definition ready :: client where
  "ready = initial\<lparr>analysisParams :=
     \<lparr>regionName = ''Zimbabwe'', startDate = ''2025-11-01'', endDate = ''2025-12-15'',
      analysisType = ''anomaly'', geometry = JObj [(''type'', JStr ''Polygon'')]\<rparr>\<rparr>"

definition over_long :: client where
  "over_long = ready\<lparr>analysisParams := (analysisParams ready)\<lparr>endDate := ''2027-01-01''\<rparr>\<rparr>"

definition job_completed :: jsval where
  "job_completed = JObj [(''type'', JStr ''job_completed'')]"

definition job_failed :: "string \<Rightarrow> jsval" where
  "job_failed m = JObj [(''type'', JStr ''job_failed''), (''message'', JStr m)]"

definition progress_update :: "int \<Rightarrow> jsval" where
  "progress_update n =
     JObj [(''type'', JStr ''progress_update''), (''progress'', JNum n),
           (''message'', JStr ''working'')]"

definition accepted :: "string \<Rightarrow> outcome" where
  "accepted j = Fulfilled (JObj [(''job_id'', JStr j)])"

text \<open>The form is submitted and the server answers with \<open>job-1\<close>.\<close>

definition pending_job :: client where
  "pending_job = run sample_dates [ClickGenerate, Settle 0 (accepted ''job-1'')] ready"

text \<open>Then \<open>job_completed\<close> arrives on the socket.\<close>

definition completed_job :: client where
  "completed_job = step sample_dates (Message 0 (Some job_completed)) pending_job"

text \<open>Then the form, enabled again, is submitted once more and the server answers with
  \<open>job-2\<close>. The preview request of \<open>job-1\<close> is still awaited, at position 0.\<close>

definition second_job :: client where
  "second_job = run sample_dates [ClickGenerate, Settle 1 (accepted ''job-2'')] completed_job"

text \<open>Or else the socket of the pending job fails, which starts the polling.\<close>

definition polling_job :: client where
  "polling_job = step sample_dates (SocketError 0) pending_job"

definition preview_requests :: "client \<Rightarrow> request list" where
  "preview_requests st =
     filter (\<lambda>r. case r of GetPreview j \<Rightarrow> True | _ \<Rightarrow> False) (requests st)"

text \<open>A viewer showing a preview response, which has \<open>image_data\<close> and \<open>statistics\<close>.\<close>

definition preview_body :: "(string \<times> jsval) list" where
  "preview_body =
     [(''image_data'', JStr ''iVBORw0KGgo=''),
      (''statistics'', JObj [(''mean_anomaly'', JNum 0), (''percentage_change'', JNum 3)])]"

definition sample_viewer :: viewer where
  "sample_viewer =
     \<lparr>results_prop = JObj preview_body, analysisParams_prop = analysisParams ready,
      isExporting = False, exportRequests = [], exportsAwaiting = [], saved = [],
      alerts = [], viewer_console = []\<rparr>"

section \<open>Evaluating the samples\<close>

lemmas model_defs =
  step_def settle_def isRunning_def handleAnalysisSubmit_def handleAnalysisSubmit_settled_def
  validateForm_def date_ge_def date_diff_days_def num_gt_def trim_def is_space_def
  startWebSocketConnection_def close_def onmessage_def onerror_def loadJobResults_def
  loadJobResults_settled_def pollJobStatus_def clearInterval_def poll_tick_def poll_settled_def
  handleCancelJob_def handleCancelJob_settled_def nullish_def js_or_def idle_def initial_def

lemmas sample_defs =
  sample_dates_def ready_def job_completed_def job_failed_def progress_update_def accepted_def

lemma pending_job_eq:
  "pending_job =
     ready\<lparr>jobStatus :=
              \<lparr>status = JStr ''pending'', progress = JNum 0,
               message = JStr ''Starting analysis...'', jobId = JStr ''job-1''\<rparr>,
           wsRef := Some 0,
           sockets := [\<lparr>sockJob = JStr ''job-1'', isOpen = True\<rparr>],
           requests := [PostGenerate (analysisParams ready)]\<rparr>"
  by (simp add: pending_job_def model_defs sample_defs)

lemma completed_job_eq:
  "completed_job =
     pending_job\<lparr>jobStatus :=
              \<lparr>status = JStr ''completed'', progress = JNum 100,
               message = JStr ''Analysis completed successfully'', jobId = JStr ''job-1''\<rparr>,
           requests := [PostGenerate (analysisParams ready), GetPreview (JStr ''job-1'')],
           awaiting := [PreviewK]\<rparr>"
  by (simp add: completed_job_def pending_job_eq model_defs sample_defs)

lemma second_job_eq:
  "second_job =
     completed_job\<lparr>jobStatus :=
              \<lparr>status = JStr ''pending'', progress = JNum 0,
               message = JStr ''Starting analysis...'', jobId = JStr ''job-2''\<rparr>,
           wsRef := Some 1,
           sockets := [\<lparr>sockJob = JStr ''job-1'', isOpen = True\<rparr>,
                       \<lparr>sockJob = JStr ''job-2'', isOpen = True\<rparr>],
           requests := [PostGenerate (analysisParams ready), GetPreview (JStr ''job-1''),
                        PostGenerate (analysisParams ready)]\<rparr>"
  by (simp add: second_job_def completed_job_eq pending_job_eq model_defs sample_defs)

lemma polling_job_eq:
  "polling_job =
     pending_job\<lparr>sockets := [\<lparr>sockJob = JStr ''job-1'', isOpen = False\<rparr>],
                 timers := [\<lparr>timerJob = JStr ''job-1'', active = True\<rparr>]\<rparr>"
  by (simp add: polling_job_def pending_job_eq model_defs sample_defs)

section \<open>Facts about the handlers\<close>

lemma get_type_not_nullish: "get data k = JStr s \<Longrightarrow> \<not> nullish data"
  by (cases data) (simp_all add: nullish_def)

text \<open>The message handler never closes a socket, clears a timer or moves \<open>wsRef\<close>.\<close>

lemma onmessage_sockets:
  "onmessage j p st = Inr st' \<Longrightarrow>
     sockets st' = sockets st \<and> wsRef st' = wsRef st \<and> timers st' = timers st"
  by (auto simp: onmessage_def loadJobResults_def split: option.splits if_splits)

text \<open>The polling path does clear its timer when the status it reads is terminal.\<close>

lemma poll_settled_terminal_clears_timer:
  assumes "n < length (timers st)"
    and "get d ''status'' = JStr ''completed'' \<or> get d ''status'' = JStr ''failed''"
  shows "\<not> active (timers (poll_settled n job (Fulfilled d) st) ! n)"
  using assms get_type_not_nullish [of d "''status''"]
  by (auto simp: poll_settled_def clearInterval_def loadJobResults_def Let_def)

lemma onmessage_startWebSocketConnection:
  "onmessage j p (startWebSocketConnection job st) =
     (case onmessage j p st of
        Inl e \<Rightarrow> Inl e
      | Inr st' \<Rightarrow> Inr (startWebSocketConnection job st'))"
  by (simp add: onmessage_def startWebSocketConnection_def loadJobResults_def
        split: option.splits)

lemma run_ticks:
  assumes "n < length (timers st)" and "active (timers st ! n)"
  shows "run Date (replicate k (Tick n)) st =
           st\<lparr>requests := requests st @ replicate k (GetStatus (timerJob (timers st ! n))),
              awaiting := awaiting st @ replicate k (PollK n (timerJob (timers st ! n)))\<rparr>"
  using assms
proof (induction k arbitrary: st)
  case 0
  then show ?case by simp
next
  case (Suc k)
  let ?st1 = "step Date (Tick n) st"
  have s1: "?st1 = st\<lparr>requests := requests st @ [GetStatus (timerJob (timers st ! n))],
              awaiting := awaiting st @ [PollK n (timerJob (timers st ! n))]\<rparr>"
    using Suc.prems by (simp add: step_def poll_tick_def)
  have "run Date (replicate (Suc k) (Tick n)) st = run Date (replicate k (Tick n)) ?st1"
    by simp
  also have "\<dots> =
      ?st1\<lparr>requests := requests ?st1 @ replicate k (GetStatus (timerJob (timers ?st1 ! n))),
           awaiting := awaiting ?st1 @ replicate k (PollK n (timerJob (timers ?st1 ! n)))\<rparr>"
    using Suc.prems by (intro Suc.IH) (simp_all add: s1)
  also have "\<dots> =
      st\<lparr>requests := requests st @ replicate (Suc k) (GetStatus (timerJob (timers st ! n))),
         awaiting := awaiting st @ replicate (Suc k) (PollK n (timerJob (timers st ! n)))\<rparr>"
    by (simp add: s1 replicate_app_Cons_same)
  finally show ?case .
qed

text \<open>Which events issue a cancel request.\<close>

lemma onmessage_requests:
  "onmessage job p st = Inr st' \<Longrightarrow> PostCancel j \<in> set (requests st')
     \<Longrightarrow> PostCancel j \<in> set (requests st)"
  by (auto simp: onmessage_def loadJobResults_def split: option.splits if_splits)

lemma settle_requests:
  "PostCancel j \<in> set (requests (settle k out st)) \<Longrightarrow> PostCancel j \<in> set (requests st)"
  by (cases k; cases out)
     (auto simp: settle_def handleAnalysisSubmit_settled_def startWebSocketConnection_def
        poll_settled_def clearInterval_def loadJobResults_def loadJobResults_settled_def
        handleCancelJob_settled_def close_def Let_def split: if_splits option.splits)

lemma step_adds_cancel_request:
  assumes "PostCancel j \<in> set (requests (step Date ev st))"
    and "PostCancel j \<notin> set (requests st)"
  shows "ev = ClickCancel \<and> isRunning st"
proof (cases ev)
  case ClickGenerate
  with assms show ?thesis
    by (auto simp: step_def handleAnalysisSubmit_def Let_def split: if_splits)
next
  case ClickCancel
  with assms show ?thesis
    by (auto simp: step_def split: if_splits)
next
  case ClickTryAgain
  with assms show ?thesis
    by (auto simp: step_def split: if_splits)
next
  case (Message n p)
  with assms show ?thesis
    by (auto simp: step_def split: if_splits sum.splits dest: onmessage_requests)
next
  case (SocketError n)
  with assms show ?thesis
    by (auto simp: step_def onerror_def pollJobStatus_def close_def split: if_splits)
next
  case (Tick n)
  with assms show ?thesis
    by (auto simp: step_def poll_tick_def split: if_splits)
next
  case (Settle i out)
  with assms show ?thesis
    by (auto simp: step_def split: if_splits dest!: settle_requests)
qed

section \<open>Facts about validation\<close>

lemma map_of_Nil_iff: "es \<noteq> [] \<longleftrightarrow> (\<exists>k. map_of es k \<noteq> None)"
  by (cases es) auto

lemma validateForm_keys:
  "fst ` set (validateForm Date p) \<subseteq> {''regionName'', ''startDate'', ''endDate'', ''geometry''}"
  by (auto simp: validateForm_def Let_def dom_update)

lemma validateForm_regionName:
  "trim (regionName p) = [] \<Longrightarrow> map_of (validateForm Date p) ''regionName'' \<noteq> None"
  by (simp add: validateForm_def Let_def update_conv')

lemma validateForm_startDate:
  "startDate p = [] \<Longrightarrow> map_of (validateForm Date p) ''startDate'' \<noteq> None"
  by (simp add: validateForm_def Let_def update_conv')

lemma validateForm_endDate:
  "endDate p = [] \<Longrightarrow> map_of (validateForm Date p) ''endDate'' \<noteq> None"
  by (simp add: validateForm_def Let_def update_conv')

lemma validateForm_geometry:
  "\<not> truthy (geometry p) \<Longrightarrow> map_of (validateForm Date p) ''geometry'' \<noteq> None"
  by (simp add: validateForm_def Let_def update_conv')

lemma validateForm_range:
  assumes "startDate p \<noteq> []" "endDate p \<noteq> []"
    and "Date (startDate p) = Some s" "Date (endDate p) = Some e"
    and "e - s > 366 * 86400000"
  shows "map_of (validateForm Date p) ''endDate''
           = Some (JStr ''Date range cannot exceed 366 days'')"
proof -
  have "real_of_int (e - s) > 366 * 86400000"
    using assms(5) by linarith
  then have "num_gt (date_diff_days (Some s) (Some e)) 366"
    by (simp add: date_diff_days_def num_gt_def field_simps)
  with assms(1-4) show ?thesis
    by (simp add: validateForm_def Let_def update_conv')
qed

section \<open>Claims\<close>

text \<open>
  C1. Every transition into \<open>completed\<close> or \<open>failed\<close> closes the subscription first, so
  that no further progress event is processed after a terminal state. The message handler
  does not do so: after \<open>job_completed\<close> has been handled the socket of \<open>job-1\<close> is still
  open, and a \<open>progress_update\<close> that arrives next on it is applied, which takes the job
  from \<open>completed\<close> back to \<open>running\<close> with progress 45; after \<open>job_failed\<close> the
  socket is open as well. (The polling path clears its timer in both terminal branches:
  \<open>poll_settled_terminal_clears_timer\<close>.)
\<close>

theorem C1_socket_stays_open_after_completed:
  "status (jobStatus completed_job) = JStr ''completed''
   \<and> sockets completed_job = [\<lparr>sockJob = JStr ''job-1'', isOpen = True\<rparr>]
   \<and> jobStatus (step sample_dates (Message 0 (Some (progress_update 45))) completed_job) =
       \<lparr>status = JStr ''running'', progress = JNum 45, message = JStr ''working'',
        jobId = JStr ''job-1''\<rparr>
   \<and> sockets (step sample_dates (Message 0 (Some (job_failed ''GEE quota exceeded'')))
                 pending_job)
       = [\<lparr>sockJob = JStr ''job-1'', isOpen = True\<rparr>]"
  by (simp add: completed_job_eq pending_job_eq step_def onmessage_def nullish_def
        progress_update_def job_failed_def ready_def initial_def)

text \<open>
  C2, as stated: at most one subscription is active, a second subscribe tears the first
  down, and events of the first job are not applied afterwards. Counterexample: after the
  second submission both sockets are open, and a \<open>progress_update\<close> arriving on the socket
  of \<open>job-1\<close> is applied to the job status, which belongs to \<open>job-2\<close>.
\<close>

theorem C2_counterexample:
  "map isOpen (sockets second_job) = [True, True]
   \<and> jobId (jobStatus second_job) = JStr ''job-2''
   \<and> jobStatus (step sample_dates (Message 0 (Some (progress_update 10))) second_job) =
       \<lparr>status = JStr ''running'', progress = JNum 10, message = JStr ''working'',
        jobId = JStr ''job-2''\<rparr>"
  by (simp add: second_job_eq completed_job_eq pending_job_eq step_def onmessage_def nullish_def
        progress_update_def ready_def initial_def)

text \<open>
  C2, amended: \<open>startWebSocketConnection\<close> opens a new socket for the job id and makes it
  the current one (\<open>wsRef\<close>); it closes no earlier socket and clears no timer. Every
  earlier socket is as it was, and a message arriving on it is handled exactly as it
  would have been before the call.
\<close>

theorem C2_subscribe_keeps_earlier_sockets:
  "wsRef (startWebSocketConnection job st) = Some (length (sockets st))
   \<and> sockets (startWebSocketConnection job st) = sockets st @ [\<lparr>sockJob = job, isOpen = True\<rparr>]
   \<and> timers (startWebSocketConnection job st) = timers st
   \<and> (\<forall>n < length (sockets st).
        sockets (startWebSocketConnection job st) ! n = sockets st ! n
        \<and> step Date (Message n p) (startWebSocketConnection job st)
            = startWebSocketConnection job (step Date (Message n p) st))"
proof -
  have "step Date (Message n p) (startWebSocketConnection job st)
            = startWebSocketConnection job (step Date (Message n p) st)"
    if "n < length (sockets st)" for n
  proof (cases "isOpen (sockets st ! n)")
    case True
    show ?thesis
    proof (cases "onmessage (sockJob (sockets st ! n)) p st")
      case (Inl e)
      with True that show ?thesis
        by (simp add: step_def onmessage_startWebSocketConnection)
           (simp add: startWebSocketConnection_def nth_append)
    next
      case (Inr st')
      with True that show ?thesis
        by (simp add: step_def onmessage_startWebSocketConnection)
           (simp add: startWebSocketConnection_def nth_append
              onmessage_startWebSocketConnection [unfolded startWebSocketConnection_def])
    qed
  next
    case False
    with that show ?thesis
      by (simp add: step_def) (simp add: startWebSocketConnection_def nth_append)
  qed
  then show ?thesis
    by (simp add: startWebSocketConnection_def nth_append)
qed

text \<open>
  C2, amended, at the completed \<open>job-1\<close>: subscribing for \<open>job-2\<close> leaves socket 0 open,
  and a \<open>progress_update\<close> on socket 0 sets the status to \<open>running\<close> either way.
\<close>

theorem C2_subscribe_keeps_earlier_sockets_witness:
  "0 < length (sockets completed_job)
   \<and> isOpen (sockets (startWebSocketConnection (JStr ''job-2'') completed_job) ! 0)
   \<and> status (jobStatus (step sample_dates (Message 0 (Some (progress_update 10)))
                          (startWebSocketConnection (JStr ''job-2'') completed_job)))
       = JStr ''running''"
  using C2_subscribe_keeps_earlier_sockets
    [where st = completed_job and job = "JStr ''job-2''" and Date = sample_dates
       and p = "Some (progress_update 10)"]
  by (simp add: completed_job_eq pending_job_eq step_def onmessage_def nullish_def
        progress_update_def startWebSocketConnection_def ready_def initial_def)

text \<open>
  C3. In \<open>idle\<close> or a terminal state, cancel is a no-op: no cancel request is issued and
  the state is unchanged; cancellation is accepted only from \<open>pending\<close> or \<open>running\<close>.
  The cancel button, the only caller of \<open>handleCancelJob\<close>, is rendered only while the
  status is \<open>pending\<close> or \<open>running\<close>. So in any other status a cancel leaves the whole
  client state as it is, and an event that issues a cancel request is a cancel in
  \<open>pending\<close> or \<open>running\<close>.
\<close>

theorem C3_cancel_only_while_pending_or_running:
  "(status (jobStatus st) \<noteq> JStr ''pending'' \<and> status (jobStatus st) \<noteq> JStr ''running''
      \<longrightarrow> step Date ClickCancel st = st)
   \<and> (PostCancel j \<in> set (requests (step Date ev st)) \<and> PostCancel j \<notin> set (requests st)
      \<longrightarrow> ev = ClickCancel
          \<and> (status (jobStatus st) = JStr ''pending'' \<or> status (jobStatus st) = JStr ''running''))"
proof -
  have noop: "step Date ClickCancel st = st"
    if "status (jobStatus st) \<noteq> JStr ''pending''" "status (jobStatus st) \<noteq> JStr ''running''"
    using that by (simp add: step_def isRunning_def)
  have only: "ev = ClickCancel
      \<and> (status (jobStatus st) = JStr ''pending'' \<or> status (jobStatus st) = JStr ''running'')"
    if "PostCancel j \<in> set (requests (step Date ev st))" "PostCancel j \<notin> set (requests st)"
    using step_adds_cancel_request [OF that] by (auto simp: isRunning_def)
  from noop only show ?thesis by blast
qed

text \<open>
  C3 at the completed \<open>job-1\<close> and at the initial, idle state, where a cancel changes
  nothing, and at the pending \<open>job-1\<close>, where it posts the cancel request.
\<close>

theorem C3_cancel_only_while_pending_or_running_witness:
  "status (jobStatus completed_job) = JStr ''completed''
   \<and> step sample_dates ClickCancel completed_job = completed_job
   \<and> status (jobStatus initial) = JStr ''idle''
   \<and> step sample_dates ClickCancel initial = initial
   \<and> status (jobStatus pending_job) = JStr ''pending''
   \<and> requests (step sample_dates ClickCancel pending_job)
       = requests pending_job @ [PostCancel (JStr ''job-1'')]"
  using C3_cancel_only_while_pending_or_running
      [where st = completed_job and Date = sample_dates and ev = ClickCancel]
    C3_cancel_only_while_pending_or_running
      [where st = initial and Date = sample_dates and ev = ClickCancel]
    C3_cancel_only_while_pending_or_running
      [where st = pending_job and Date = sample_dates and ev = ClickCancel
         and j = "JStr ''job-1''"]
  by (simp add: completed_job_eq pending_job_eq step_def isRunning_def handleCancelJob_def
        ready_def initial_def idle_def)

text \<open>
  C4. A request that fails local validation (empty region name, missing start or end date,
  end date not after start date, range over 366 days, or null geometry) is not sent:
  \<open>handleAnalysisSubmit\<close> stores the non-empty mapping that \<open>validateForm\<close> returns, whose
  keys are field names, as the form's errors, changes nothing else and issues no request.
  Whenever both dates are given and the end is more than 366 days after the start, the
  mapping has the range error under \<open>endDate\<close>.
\<close>

theorem C4_invalid_request_is_not_sent:
  assumes "trim (regionName (analysisParams st)) = []
           \<or> startDate (analysisParams st) = []
           \<or> endDate (analysisParams st) = []
           \<or> (\<exists>s e. Date (startDate (analysisParams st)) = Some s
                    \<and> Date (endDate (analysisParams st)) = Some e
                    \<and> (e \<le> s \<or> e - s > 366 * 86400000))
           \<or> geometry (analysisParams st) = JNull"
  shows "handleAnalysisSubmit Date st = st\<lparr>errors := validateForm Date (analysisParams st)\<rparr>
         \<and> errors (handleAnalysisSubmit Date st) \<noteq> []
         \<and> fst ` set (errors (handleAnalysisSubmit Date st))
             \<subseteq> {''regionName'', ''startDate'', ''endDate'', ''geometry''}
         \<and> requests (handleAnalysisSubmit Date st) = requests st
         \<and> awaiting (handleAnalysisSubmit Date st) = awaiting st
         \<and> (\<forall>s e. startDate (analysisParams st) \<noteq> [] \<and> endDate (analysisParams st) \<noteq> []
                 \<and> Date (startDate (analysisParams st)) = Some s
                 \<and> Date (endDate (analysisParams st)) = Some e
                 \<and> e - s > 366 * 86400000
               \<longrightarrow> map_of (errors (handleAnalysisSubmit Date st)) ''endDate''
                     = Some (JStr ''Date range cannot exceed 366 days''))"
proof -
  let ?p = "analysisParams st"
  have "\<exists>k. map_of (validateForm Date ?p) k \<noteq> None"
  proof (cases "startDate ?p = [] \<or> endDate ?p = []")
    case True
    then show ?thesis
      using validateForm_startDate [of ?p Date] validateForm_endDate [of ?p Date] by blast
  next
    case False
    from assms consider "trim (regionName ?p) = []"
      | s e where "Date (startDate ?p) = Some s" "Date (endDate ?p) = Some e" "e \<le> s"
      | s e where "Date (startDate ?p) = Some s" "Date (endDate ?p) = Some e"
          "e - s > 366 * 86400000"
      | "geometry ?p = JNull"
      using False by blast
    then show ?thesis
    proof cases
      case 1
      then show ?thesis using validateForm_regionName [of ?p Date] by blast
    next
      case 2
      with False have "map_of (validateForm Date ?p) ''endDate'' \<noteq> None"
      proof (cases "e - s > 366 * 86400000")
        case True
        with 2 False show ?thesis using validateForm_range [of ?p Date s e] by simp
      next
        case nr: False
        with 2 False show ?thesis
          by (simp add: validateForm_def Let_def update_conv' date_ge_def)
      qed
      then show ?thesis by blast
    next
      case 3
      with False show ?thesis using validateForm_range [of ?p Date s e] by auto
    next
      case 4
      then show ?thesis using validateForm_geometry [of ?p Date] by auto
    qed
  qed
  then have ne: "validateForm Date ?p \<noteq> []"
    by (simp add: map_of_Nil_iff)
  then have eq: "handleAnalysisSubmit Date st = st\<lparr>errors := validateForm Date ?p\<rparr>"
    by (simp add: handleAnalysisSubmit_def Let_def)
  show ?thesis
    unfolding eq using ne validateForm_keys [of Date ?p] validateForm_range [of ?p Date]
    by simp
qed

text \<open>
  C4 at the sample form with the end date moved to 2027-01-01, 426 days after the start:
  the only error is the range error under \<open>endDate\<close>, and no request is issued.
\<close>

theorem C4_invalid_request_is_not_sent_witness:
  "sample_dates (startDate (analysisParams over_long)) = Some 1761955200000
   \<and> sample_dates (endDate (analysisParams over_long)) = Some 1798761600000
   \<and> errors (handleAnalysisSubmit sample_dates over_long)
       = [(''endDate'', JStr ''Date range cannot exceed 366 days'')]
   \<and> requests (handleAnalysisSubmit sample_dates over_long) = []"
  using C4_invalid_request_is_not_sent [where st = over_long and Date = sample_dates]
  by (simp add: over_long_def ready_def initial_def sample_dates_def handleAnalysisSubmit_def
        validateForm_def trim_def is_space_def date_ge_def date_diff_days_def num_gt_def)

text \<open>
  C5. For a job in \<open>pending\<close> or \<open>running\<close>, handling a \<open>job_completed\<close> message sets
  the status to \<open>completed\<close> and the progress to 100, keeps the job id, and requests the
  preview of the job the socket was opened for.
\<close>

theorem C5_job_completed:
  assumes "status (jobStatus st) = JStr ''pending'' \<or> status (jobStatus st) = JStr ''running''"
    and "get data ''type'' = JStr ''job_completed''"
  shows "\<exists>st'. onmessage job (Some data) st = Inr st'
           \<and> status (jobStatus st') = JStr ''completed''
           \<and> progress (jobStatus st') = JNum 100
           \<and> jobId (jobStatus st') = jobId (jobStatus st)
           \<and> requests st' = requests st @ [GetPreview job]
           \<and> awaiting st' = awaiting st @ [PreviewK]"
  using assms(2) get_type_not_nullish [OF assms(2)]
  by (simp add: onmessage_def loadJobResults_def)

text \<open>C5 at the pending \<open>job-1\<close>, through the event loop.\<close>

theorem C5_job_completed_witness:
  "status (jobStatus pending_job) = JStr ''pending''
   \<and> get job_completed ''type'' = JStr ''job_completed''
   \<and> jobStatus (step sample_dates (Message 0 (Some job_completed)) pending_job)
       = \<lparr>status = JStr ''completed'', progress = JNum 100,
          message = JStr ''Analysis completed successfully'', jobId = JStr ''job-1''\<rparr>
   \<and> requests (step sample_dates (Message 0 (Some job_completed)) pending_job)
       = requests pending_job @ [GetPreview (JStr ''job-1'')]"
  using C5_job_completed [where st = pending_job and data = job_completed
      and job = "JStr ''job-1''"]
  by (simp add: pending_job_eq step_def onmessage_def loadJobResults_def nullish_def
        job_completed_def ready_def initial_def)

text \<open>
  C6. In every run of a job the preview is fetched exactly once, on the transition to
  \<open>completed\<close>, and never when the job ends in \<open>failed\<close>. The socket stays open after
  a terminal message, so the handler runs again: two \<open>job_completed\<close> messages on the
  socket of \<open>job-1\<close> request the preview twice, and \<open>job_completed\<close> followed by
  \<open>job_failed\<close> leaves the job \<open>failed\<close> with the preview requested.
\<close>

theorem C6_preview_requested_per_message:
  "preview_requests
     (run sample_dates [Message 0 (Some job_completed), Message 0 (Some job_completed)]
        pending_job)
     = [GetPreview (JStr ''job-1''), GetPreview (JStr ''job-1'')]
   \<and> status (jobStatus
        (run sample_dates
           [Message 0 (Some job_completed), Message 0 (Some (job_failed ''GEE quota exceeded''))]
           pending_job))
     = JStr ''failed''
   \<and> preview_requests
        (run sample_dates
           [Message 0 (Some job_completed), Message 0 (Some (job_failed ''GEE quota exceeded''))]
           pending_job)
     = [GetPreview (JStr ''job-1'')]"
  by (simp add: preview_requests_def pending_job_eq step_def onmessage_def nullish_def
        job_completed_def job_failed_def loadJobResults_def js_or_def ready_def initial_def)




text \<open>
  C8, as stated: while polling, at most one status request is outstanding; a tick is
  skipped while the previous poll has not resolved. Counterexample: once the socket of
  \<open>job-1\<close> has failed, two timer ticks with no response in between leave two status
  requests outstanding.
\<close>

theorem C8_counterexample:
  "awaiting (run sample_dates [Tick 0, Tick 0] polling_job)
     = [PollK 0 (JStr ''job-1''), PollK 0 (JStr ''job-1'')]
   \<and> requests (run sample_dates [Tick 0, Tick 0] polling_job)
     = [PostGenerate (analysisParams ready), GetStatus (JStr ''job-1''),
        GetStatus (JStr ''job-1'')]"
  by (simp add: polling_job_eq pending_job_eq step_def poll_tick_def ready_def initial_def)

text \<open>
  C8, amended: while a polling timer is set, every tick issues a status request, whether
  or not earlier polls are outstanding: \<open>k\<close> ticks with no response in between add \<open>k\<close>
  outstanding requests and leave the timer set. A poll that fails is logged and leaves
  the timer set.
\<close>

theorem C8_every_tick_polls:
  assumes "n < length (timers st)" and "active (timers st ! n)"
  shows "awaiting (run Date (replicate k (Tick n)) st)
           = awaiting st @ replicate k (PollK n (timerJob (timers st ! n)))
         \<and> requests (run Date (replicate k (Tick n)) st)
           = requests st @ replicate k (GetStatus (timerJob (timers st ! n)))
         \<and> timers (run Date (replicate k (Tick n)) st) = timers st
         \<and> timers (poll_settled n job (Rejected e) st) = timers st
         \<and> console (poll_settled n job (Rejected e) st)
           = console st @ [''Failed to poll job status:'']"
proof -
  let ?job = "timerJob (timers st ! n)"
  have ticks: "run Date (replicate k (Tick n)) st =
      st\<lparr>requests := requests st @ replicate k (GetStatus ?job),
         awaiting := awaiting st @ replicate k (PollK n ?job)\<rparr>"
    using assms by (rule run_ticks)
  have rejected: "poll_settled n job (Rejected e) st =
      st\<lparr>console := console st @ [''Failed to poll job status:'']\<rparr>"
    by (simp add: poll_settled_def)
  show ?thesis
    unfolding ticks rejected by simp
qed

text \<open>C8, amended, at the polling \<open>job-1\<close>: three ticks, three outstanding polls.\<close>

theorem C8_every_tick_polls_witness:
  "0 < length (timers polling_job) \<and> active (timers polling_job ! 0)
   \<and> awaiting (run sample_dates (replicate 3 (Tick 0)) polling_job)
       = [PollK 0 (JStr ''job-1''), PollK 0 (JStr ''job-1''), PollK 0 (JStr ''job-1'')]"
  using C8_every_tick_polls [where st = polling_job and n = 0 and k = 3 and Date = sample_dates]
  by (simp add: polling_job_eq pending_job_eq ready_def initial_def numeral_3_eq_3)

text \<open>
  C9. The body of the preview response is stored as the results as it is. When the
  results object has no \<open>job_id\<close> property, \<open>downloadMap\<close> returns at once: the viewer is
  unchanged, so no export request is issued, nothing is awaited, and no file is saved.
\<close>

theorem C9_export_without_job_id:
  assumes "map_of kvs ''job_id'' = None" and "results_prop v = JObj kvs"
  shows "results (loadJobResults_settled (Fulfilled (JObj kvs)) st) = JObj kvs
         \<and> downloadMap parseInt fmt res v = Inr v"
  using assms by (simp add: loadJobResults_settled_def downloadMap_def nullish_def)

text \<open>C9 at a viewer that shows a preview response.\<close>

theorem C9_export_without_job_id_witness:
  "map_of preview_body ''job_id'' = None \<and> results_prop sample_viewer = JObj preview_body
   \<and> downloadMap (\<lambda>s. JNum 300) ''png'' ''300'' sample_viewer = Inr sample_viewer
   \<and> exportRequests sample_viewer = [] \<and> saved sample_viewer = []"
  using C9_export_without_job_id
    [where kvs = preview_body and v = sample_viewer and parseInt = "\<lambda>s. JNum 300"
       and fmt = "''png''" and res = "''300''" and st = completed_job]
  by (simp add: preview_body_def sample_viewer_def)

text \<open>
  C10. Handling a \<open>job_failed\<close> message changes only the status and the message of the
  job: the job id and the progress keep their values, and nothing outside the job status
  changes. The message is the one received, or \<open>Analysis failed\<close> when that is falsy.
\<close>

theorem C10_job_failed_frame:
  assumes "get data ''type'' = JStr ''job_failed''"
  shows "\<exists>st'. onmessage job (Some data) st = Inr st'
           \<and> jobId (jobStatus st') = jobId (jobStatus st)
           \<and> progress (jobStatus st') = progress (jobStatus st)
           \<and> status (jobStatus st') = JStr ''failed''
           \<and> message (jobStatus st') = js_or (get data ''message'') (JStr ''Analysis failed'')
           \<and> st'\<lparr>jobStatus := jobStatus st\<rparr> = st"
  using assms get_type_not_nullish [OF assms]
  by (simp add: onmessage_def)

text \<open>C10 at \<open>job-1\<close> with progress 20, failing with a message.\<close>

theorem C10_job_failed_frame_witness:
  "get (job_failed ''GEE quota exceeded'') ''type'' = JStr ''job_failed''
   \<and> jobStatus (run sample_dates
        [Message 0 (Some (progress_update 20)), Message 0 (Some (job_failed ''GEE quota exceeded''))]
        pending_job)
       = \<lparr>status = JStr ''failed'', progress = JNum 20, message = JStr ''GEE quota exceeded'',
          jobId = JStr ''job-1''\<rparr>"
  using C10_job_failed_frame
    [where data = "job_failed ''GEE quota exceeded''" and job = "JStr ''job-1''"
       and st = "step sample_dates (Message 0 (Some (progress_update 20))) pending_job"]
  by (simp add: pending_job_eq step_def onmessage_def nullish_def progress_update_def
        job_failed_def js_or_def ready_def initial_def)

end
